theory Spec2Isabelle
  imports Main "HOL-Library.AList"
begin

section \<open>Values that cross the adapter boundary\<close>

text \<open>
  The adapter (PillarProvider.svelte, stores/usePillar.ts, stores/useHelpPanel.ts) only
  moves references around: the SDK client object, DOM elements, Svelte components and
  caller-supplied functions are opaque to it. Each is modelled by its identity.
\<close>

type_synonym inst_ref = nat
type_synonym fn = nat
type_synonym element = nat
type_synonym handle = nat
type_synonym component = nat
type_synonym json = "(string \<times> string) list"

text \<open>
  \<^verbatim>\<open>PillarState\<close> is declared by the SDK. The adapter writes the three literals
  \<^verbatim>\<open>'uninitialized'\<close>, \<^verbatim>\<open>'ready'\<close> and \<^verbatim>\<open>'error'\<close>; any other value the SDK
  may hold in \<^verbatim>\<open>instance.state\<close> is kept as \<open>OtherState\<close>.
\<close>

datatype pillar_state = Uninitialized | Ready | Error | OtherState string

datatype js_error = JsError string

datatype 'a completion = Returned 'a | Thrown js_error

text \<open>The keys of \<^verbatim>\<open>PillarEvents\<close> that the adapter names, and any other key.\<close>

datatype event = PanelOpen | PanelClose | ReadyEvent | ErrorEvent | TaskExecute | OtherEvent string

text \<open>
  The callbacks handed to \<^verbatim>\<open>instance.on\<close>: the four closures over the provider's stores,
  the closure forwarding to the \<^verbatim>\<open>onTask\<close> prop, and a caller's own function.
\<close>

datatype handler =
    SetIsPanelOpen bool
  | SetState pillar_state
  | ForwardTask fn
  | Callback fn

record open_options =
  view :: "string option"
  article :: "string option"
  search_opt :: "string option"
  focusInput :: "bool option"

text \<open>The methods of the SDK client object that the adapter calls, with their arguments.\<close>

datatype sdk_method =
    MOpen "open_options option"
  | MClose
  | MToggle
  | MNavigate string "json option"
  | MSetTheme json
  | MSetTextSelectionEnabled bool
  | MOn event handler
  | MOnTask string fn
  | MRegisterCard string component

datatype sdk_call =
    StaticInit "(string \<times> string option) list"
  | Call inst_ref sdk_method
  | Unsubscribed nat

datatype registration =
    Listener event handler
  | TaskHandler string fn
  | CardRenderer string component

datatype console_entry = Warn string | ErrorLog string js_error

text \<open>
  Every \<^verbatim>\<open>() => void\<close> the adapter produces or stores: the literal \<^verbatim>\<open>() => {}\<close>, an
  unsubscribe function returned by the SDK, and the cleanup closure of a card renderer.
\<close>

datatype thunk = Noop | SdkUnsubscribe nat | UnmountCard element

record card_callbacks =
  onConfirm :: fn
  onCancel :: fn
  onStateChange :: "fn option"

record card_props = card_callbacks +
  data :: json

record mounted_component =
  comp :: component
  target :: element
  given_props :: card_props

record pillar_instance =
  inst_id :: inst_ref
  inst_state :: pillar_state

section \<open>The collaborators: SDK, console and component framework\<close>

text \<open>
  What lies outside the adapter. \<open>singleton\<close> is what \<^verbatim>\<open>Pillar.getInstance()\<close> returns,
  \<open>sdk_log\<close> the calls received by the SDK in order, \<open>registrations\<close> what is currently
  subscribed, \<open>console\<close> the diagnostic channel, \<open>mounted\<close> the components mounted through
  \<^verbatim>\<open>mount\<close> and not yet unmounted. \<open>control_fails\<close> says which panel-control call the
  SDK answers with an exception.
\<close>

record world =
  singleton :: "pillar_instance option"
  sdk_log :: "sdk_call list"
  registrations :: "(nat \<times> registration) list"
  console :: "console_entry list"
  mounted :: "(handle \<times> mounted_component) list"
  fresh :: nat
  control_fails :: "sdk_method \<Rightarrow> js_error option"

text \<open>
  Modelled from the spec: the SDK's imperative panel-control methods (open, close, toggle,
  navigate, setTheme, setTextSelectionEnabled) are external; the call is recorded and
  completes as the SDK decides.
\<close>

definition sdk_control :: "inst_ref \<Rightarrow> sdk_method \<Rightarrow> world \<Rightarrow> unit completion \<times> world" where
  "sdk_control i m w =
     ((case control_fails w m of None \<Rightarrow> Returned () | Some e \<Rightarrow> Thrown e),
      w\<lparr>sdk_log := sdk_log w @ [Call i m]\<rparr>)"

text \<open>
  Modelled from the spec: the SDK's subscription methods (\<^verbatim>\<open>on\<close>, \<^verbatim>\<open>onTask\<close>,
  \<^verbatim>\<open>registerCard\<close>) are external; section 6 gives their contract: each records the
  subscription and returns an unsubscribe function.
\<close>

definition sdk_subscribe :: "inst_ref \<Rightarrow> sdk_method \<Rightarrow> registration \<Rightarrow> world \<Rightarrow> thunk \<times> world" where
  "sdk_subscribe i m r w =
     (SdkUnsubscribe (fresh w),
      w\<lparr>sdk_log := sdk_log w @ [Call i m],
        registrations := registrations w @ [(fresh w, r)],
        fresh := Suc (fresh w)\<rparr>)"

definition sdk_on :: "inst_ref \<Rightarrow> event \<Rightarrow> handler \<Rightarrow> world \<Rightarrow> thunk \<times> world" where
  "sdk_on i ev h w = sdk_subscribe i (MOn ev h) (Listener ev h) w"

definition sdk_onTask :: "inst_ref \<Rightarrow> string \<Rightarrow> fn \<Rightarrow> world \<Rightarrow> thunk \<times> world" where
  "sdk_onTask i name h w = sdk_subscribe i (MOnTask name h) (TaskHandler name h) w"

definition sdk_registerCard :: "inst_ref \<Rightarrow> string \<Rightarrow> component \<Rightarrow> world \<Rightarrow> thunk \<times> world" where
  "sdk_registerCard i cardType c w =
     sdk_subscribe i (MRegisterCard cardType c) (CardRenderer cardType c) w"

text \<open>
  Modelled from the spec: an unsubscribe function returned by the SDK removes its own
  subscription and nothing else; in particular the SDK is not assumed to call the cleanup
  that a card renderer returned.
\<close>

definition sdk_unsubscribe :: "nat \<Rightarrow> world \<Rightarrow> world" where
  "sdk_unsubscribe k w =
     w\<lparr>sdk_log := sdk_log w @ [Unsubscribed k],
       registrations := filter (\<lambda>kr. fst kr \<noteq> k) (registrations w)\<rparr>"

text \<open>
  Modelled from the spec: \<^verbatim>\<open>Pillar.init\<close> is the SDK's asynchronous initializer. What the
  awaited promise settles to is an input (\<open>Inl\<close>: rejection or exception); on success the
  returned instance is the process-wide singleton from then on. Its argument is one
  object, kept as its properties in order; a property may hold \<^verbatim>\<open>undefined\<close>.
\<close>

definition Pillar_init ::
  "(string \<times> string option) list \<Rightarrow> js_error + pillar_instance \<Rightarrow> world \<Rightarrow>
     (js_error + pillar_instance) \<times> world" where
  "Pillar_init options outcome w =
     (outcome,
      w\<lparr>sdk_log := sdk_log w @ [StaticInit options],
        singleton := (case outcome of Inl e \<Rightarrow> singleton w | Inr inst \<Rightarrow> Some inst)\<rparr>)"

text \<open>
  Modelled from the spec: \<^verbatim>\<open>mount\<close> and \<^verbatim>\<open>unmount\<close> of the component framework.
  \<^verbatim>\<open>mount\<close> returns a new handle for the component now living in \<open>target\<close>.
\<close>

definition mount :: "component \<Rightarrow> element \<Rightarrow> card_props \<Rightarrow> world \<Rightarrow> handle \<times> world" where
  "mount c t pr w =
     (fresh w,
      w\<lparr>mounted := mounted w @ [(fresh w, \<lparr>comp = c, target = t, given_props = pr\<rparr>)],
        fresh := Suc (fresh w)\<rparr>)"

definition unmount :: "handle \<Rightarrow> world \<Rightarrow> world" where
  "unmount h w = w\<lparr>mounted := filter (\<lambda>km. fst km \<noteq> h) (mounted w)\<rparr>"

section \<open>PillarProvider.svelte\<close>

record provider_props =
  productKey :: "string option"
  helpCenter :: "string option"
  config :: "json option"
  onTask :: "fn option"
  cards :: "(string \<times> component) list option"
  children :: "fn option"

text \<open>
  The state one provider component owns: its props, \<open>resolvedKey\<close>, the three writable
  stores, the array \<open>cleanupFunctions\<close> and the map \<open>cardInstances\<close> (in insertion order).
\<close>

record provider =
  given :: provider_props
  resolvedKey :: "string option"
  pillarStore :: "inst_ref option"
  stateStore :: pillar_state
  isPanelOpenStore :: bool
  cleanupFunctions :: "thunk list"
  cardInstances :: "(element \<times> handle) list"

text \<open>JavaScript truthiness of an optional string, and the operator \<^verbatim>\<open>??\<close>.\<close>

definition truthy :: "string option \<Rightarrow> bool" where
  "truthy s = (case s of None \<Rightarrow> False | Some x \<Rightarrow> x \<noteq> [])"

definition nullish_or :: "'a option \<Rightarrow> 'a option \<Rightarrow> 'a option" where
  "nullish_or a b = (case a of None \<Rightarrow> b | Some x \<Rightarrow> Some x)"

definition deprecation_notice :: string where
  "deprecation_notice =
     ''[Pillar Svelte] \"helpCenter\" prop is deprecated. Use \"productKey\" instead.''"

text \<open>
  The top level of the component script (lines 33 to 53): runs once per instantiation,
  resolves the key, warns, and creates the stores with their initial values.
\<close>

definition PillarProvider :: "provider_props \<Rightarrow> world \<Rightarrow> provider \<times> world" where
  "PillarProvider pr w =
     (\<lparr>given = pr,
       resolvedKey = nullish_or (productKey pr) (helpCenter pr),
       pillarStore = None,
       stateStore = Uninitialized,
       isPanelOpenStore = False,
       cleanupFunctions = [],
       cardInstances = []\<rparr>,
      if truthy (helpCenter pr) \<and> \<not> truthy (productKey pr)
      then w\<lparr>console := console w @ [Warn deprecation_notice]\<rparr>
      else w)"

definition isReadyStore :: "provider \<Rightarrow> bool" where
  "isReadyStore p = (stateStore p = Ready)"

subsection \<open>Actions (lines 56 to 102)\<close>

text \<open>
  \<^verbatim>\<open>get(pillarStore)?.m(args)\<close>: nothing happens on \<^verbatim>\<open>null\<close>, otherwise the call is made.
\<close>

definition optional_call :: "sdk_method \<Rightarrow> provider \<Rightarrow> world \<Rightarrow> unit completion \<times> provider \<times> world" where
  "optional_call m p w =
     (case pillarStore p of
        None \<Rightarrow> (Returned (), p, w)
      | Some i \<Rightarrow> (case sdk_control i m w of (r, w') \<Rightarrow> (r, p, w')))"

definition "open" :: "open_options option \<Rightarrow> provider \<Rightarrow> world \<Rightarrow> unit completion \<times> provider \<times> world" where
  "open options p w = optional_call (MOpen options) p w"

definition close :: "provider \<Rightarrow> world \<Rightarrow> unit completion \<times> provider \<times> world" where
  "close p w = optional_call MClose p w"

definition toggle :: "provider \<Rightarrow> world \<Rightarrow> unit completion \<times> provider \<times> world" where
  "toggle p w = optional_call MToggle p w"

definition openArticle :: "string \<Rightarrow> provider \<Rightarrow> world \<Rightarrow> unit completion \<times> provider \<times> world" where
  "openArticle slug p w =
     optional_call
       (MOpen (Some \<lparr>view = None, article = Some slug, search_opt = None, focusInput = None\<rparr>)) p w"

text \<open>
  \<^verbatim>\<open>openCategory\<close> is declared \<^verbatim>\<open>async\<close>: \<open>Thrown\<close> stands for the rejection of the
  promise it returns.
\<close>

definition openCategory :: "string \<Rightarrow> provider \<Rightarrow> world \<Rightarrow> unit completion \<times> provider \<times> world" where
  "openCategory slug p w = optional_call (MNavigate ''category'' (Some [(''slug'', slug)])) p w"

definition search :: "string \<Rightarrow> provider \<Rightarrow> world \<Rightarrow> unit completion \<times> provider \<times> world" where
  "search query p w =
     optional_call
       (MOpen (Some \<lparr>view = None, article = None, search_opt = Some query, focusInput = None\<rparr>)) p w"

definition navigate :: "string \<Rightarrow> json option \<Rightarrow> provider \<Rightarrow> world \<Rightarrow> unit completion \<times> provider \<times> world" where
  "navigate v params p w = optional_call (MNavigate v params) p w"

definition setTheme :: "json \<Rightarrow> provider \<Rightarrow> world \<Rightarrow> unit completion \<times> provider \<times> world" where
  "setTheme theme p w = optional_call (MSetTheme theme) p w"

definition setTextSelectionEnabled :: "bool \<Rightarrow> provider \<Rightarrow> world \<Rightarrow> unit completion \<times> provider \<times> world" where
  "setTextSelectionEnabled enabled p w = optional_call (MSetTextSelectionEnabled enabled) p w"

text \<open>
  \<^verbatim>\<open>get(pillarStore)?.on(event, callback) ?? (() => {})\<close>: the left operand is
  \<^verbatim>\<open>undefined\<close> exactly when the store holds \<^verbatim>\<open>null\<close>.
\<close>

definition on :: "event \<Rightarrow> fn \<Rightarrow> provider \<Rightarrow> world \<Rightarrow> thunk completion \<times> provider \<times> world" where
  "on ev callback p w =
     (case pillarStore p of
        None \<Rightarrow> (Returned Noop, p, w)
      | Some i \<Rightarrow> (case sdk_on i ev (Callback callback) w of (u, w') \<Rightarrow> (Returned u, p, w')))"

subsection \<open>Card renderers (lines 105 to 138)\<close>

text \<open>
  The renderer registered for a card component \<open>c\<close>, as the SDK invokes it: mount the
  component into the container, remember the handle under the container, return the
  cleanup closure.
\<close>

definition card_renderer ::
  "component \<Rightarrow> element \<Rightarrow> json \<Rightarrow> card_callbacks \<Rightarrow> provider \<Rightarrow> world \<Rightarrow> thunk \<times> provider \<times> world" where
  "card_renderer c container d callbacks p w =
     (case mount c container
             \<lparr>onConfirm = onConfirm callbacks,
              onCancel = onCancel callbacks,
              onStateChange = onStateChange callbacks,
              data = d\<rparr> w of
        (h, w') \<Rightarrow>
          (UnmountCard container,
           p\<lparr>cardInstances := AList.update container h (cardInstances p)\<rparr>,
           w'))"

text \<open>Calling one of the adapter's \<^verbatim>\<open>() => void\<close> functions.\<close>

fun run_thunk :: "thunk \<Rightarrow> provider \<Rightarrow> world \<Rightarrow> provider \<times> world" where
  "run_thunk Noop p w = (p, w)"
| "run_thunk (SdkUnsubscribe k) p w = (p, sdk_unsubscribe k w)"
| "run_thunk (UnmountCard container) p w =
     (case map_of (cardInstances p) container of
        None \<Rightarrow> (p, w)
      | Some existingComponent \<Rightarrow>
          (p\<lparr>cardInstances := AList.delete container (cardInstances p)\<rparr>,
           unmount existingComponent w))"

text \<open>The body of the \<^verbatim>\<open>forEach\<close> in \<^verbatim>\<open>registerCards\<close>, then the loop.\<close>

fun registerCards_loop :: "inst_ref \<Rightarrow> (string \<times> component) list \<Rightarrow> provider \<Rightarrow> world \<Rightarrow> provider \<times> world" where
  "registerCards_loop i [] p w = (p, w)"
| "registerCards_loop i ((cardType, c) # rest) p w =
     (case sdk_registerCard i cardType c w of
        (unsubscribe, w') \<Rightarrow>
          registerCards_loop i rest
            (p\<lparr>cleanupFunctions := cleanupFunctions p @ [unsubscribe]\<rparr>) w')"

definition registerCards :: "inst_ref \<Rightarrow> provider \<Rightarrow> world \<Rightarrow> provider \<times> world" where
  "registerCards i p w =
     (case cards (given p) of
        None \<Rightarrow> (p, w)
      | Some cs \<Rightarrow> registerCards_loop i cs p w)"

subsection \<open>onMount (lines 161 to 231)\<close>

text \<open>\<^verbatim>\<open>const u = instance.on(ev, h); cleanupFunctions.push(u)\<close>.\<close>

definition subscribe_and_track :: "inst_ref \<Rightarrow> event \<Rightarrow> handler \<Rightarrow> provider \<times> world \<Rightarrow> provider \<times> world" where
  "subscribe_and_track i ev h pw =
     (case pw of (p, w) \<Rightarrow>
        (case sdk_on i ev h w of
           (u, w') \<Rightarrow> (p\<lparr>cleanupFunctions := cleanupFunctions p @ [u]\<rparr>, w')))"

definition reuse_existing :: "pillar_instance \<Rightarrow> provider \<Rightarrow> world \<Rightarrow> provider \<times> world" where
  "reuse_existing existingInstance p w =
     (let i = inst_id existingInstance;
          p1 = p\<lparr>pillarStore := Some i\<rparr>;
          p2 = p1\<lparr>stateStore := inst_state existingInstance\<rparr>;
          pw3 = subscribe_and_track i PanelOpen (SetIsPanelOpen True) (p2, w);
          pw4 = subscribe_and_track i PanelClose (SetIsPanelOpen False) pw3
      in registerCards i (fst pw4) (snd pw4))"

definition after_init :: "pillar_instance \<Rightarrow> provider \<Rightarrow> world \<Rightarrow> provider \<times> world" where
  "after_init instance p w =
     (let i = inst_id instance;
          p1 = p\<lparr>pillarStore := Some i\<rparr>;
          p2 = p1\<lparr>stateStore := inst_state instance\<rparr>;
          pw3 = subscribe_and_track i PanelOpen (SetIsPanelOpen True) (p2, w);
          pw4 = subscribe_and_track i PanelClose (SetIsPanelOpen False) pw3;
          pw5 = subscribe_and_track i ReadyEvent (SetState Ready) pw4;
          pw6 = subscribe_and_track i ErrorEvent (SetState Error) pw5;
          pw7 = (case onTask (given p) of
                   None \<Rightarrow> pw6
                 | Some f \<Rightarrow> subscribe_and_track i TaskExecute (ForwardTask f) pw6)
      in registerCards i (fst pw7) (snd pw7))"

text \<open>
  The object literal \<^verbatim>\<open>{ productKey: resolvedKey, ...config }\<close> (lines 187 to 190): the
  properties of \<open>config\<close> are copied after \<open>productKey\<close> is set, so a property of that
  name among them replaces the resolved key; spreading \<^verbatim>\<open>undefined\<close> copies nothing.
\<close>

definition init_argument :: "string option \<Rightarrow> json option \<Rightarrow> (string \<times> string option) list" where
  "init_argument key cfg =
     fold (\<lambda>kv. AList.update (fst kv) (Some (snd kv)))
       (case cfg of None \<Rightarrow> [] | Some c \<Rightarrow> c)
       [(''productKey'', key)]"

text \<open>
  The \<^verbatim>\<open>try\<close> block. \<open>outcome\<close> is what \<^verbatim>\<open>await Pillar.init(...)\<close> settles to, should
  the block get there.
\<close>

definition onMount_try ::
  "js_error + pillar_instance \<Rightarrow> provider \<Rightarrow> world \<Rightarrow> unit completion \<times> provider \<times> world" where
  "onMount_try outcome p w =
     (case singleton w of
        Some existingInstance \<Rightarrow>
          (case reuse_existing existingInstance p w of (p', w') \<Rightarrow> (Returned (), p', w'))
      | None \<Rightarrow>
          (case Pillar_init (init_argument (resolvedKey p) (config (given p))) outcome w of
             (Inl e, w1) \<Rightarrow> (Thrown e, p, w1)
           | (Inr instance, w1) \<Rightarrow>
               (case after_init instance p w1 of (p', w') \<Rightarrow> (Returned (), p', w'))))"

text \<open>The whole callback: the \<^verbatim>\<open>try\<close> block with its \<^verbatim>\<open>catch\<close>.\<close>

definition onMount ::
  "js_error + pillar_instance \<Rightarrow> provider \<Rightarrow> world \<Rightarrow> unit completion \<times> provider \<times> world" where
  "onMount outcome p w =
     (case onMount_try outcome p w of
        (Thrown error, p', w') \<Rightarrow>
          (Returned (),
           p'\<lparr>stateStore := Error\<rparr>,
           w'\<lparr>console := console w' @ [ErrorLog ''[Pillar Svelte] Failed to initialize:'' error]\<rparr>)
      | (Returned u, p', w') \<Rightarrow> (Returned u, p', w'))"

subsection \<open>onDestroy (lines 234 to 245)\<close>

fun run_all :: "thunk list \<Rightarrow> provider \<Rightarrow> world \<Rightarrow> provider \<times> world" where
  "run_all [] p w = (p, w)"
| "run_all (cleanup # rest) p w = (case run_thunk cleanup p w of (p', w') \<Rightarrow> run_all rest p' w')"

definition onDestroy :: "provider \<Rightarrow> world \<Rightarrow> provider \<times> world" where
  "onDestroy p w =
     (case run_all (cleanupFunctions p) p w of
        (p1, w1) \<Rightarrow>
          (let p2 = p1\<lparr>cleanupFunctions := []\<rparr>;
               w2 = fold unmount (map snd (cardInstances p2)) w1
           in (p2\<lparr>cardInstances := []\<rparr>, w2)))"

text \<open>The template: the children snippet is rendered whenever it is given.\<close>

definition rendered :: "provider \<Rightarrow> fn option" where
  "rendered p = children (given p)"

section \<open>The accessor hooks\<close>

text \<open>
  Modelled from the spec: \<^verbatim>\<open>context.ts\<close> is not among the sources; section 4.1 says the
  context is published under a single well-known key. \<^verbatim>\<open>getContext\<close> looks the key up in
  what the ancestors of the calling component have set.
\<close>

datatype context_key = PILLAR_CONTEXT_KEY | OtherKey string

definition getContext :: "(context_key \<rightharpoonup> 'c) \<Rightarrow> context_key \<Rightarrow> 'c option" where
  "getContext ancestors k = ancestors k"

definition setContext :: "context_key \<Rightarrow> 'c \<Rightarrow> (context_key \<rightharpoonup> 'c) \<Rightarrow> (context_key \<rightharpoonup> 'c)" where
  "setContext k v ancestors = ancestors(k \<mapsto> v)"

subsection \<open>stores/usePillar.ts\<close>

definition usePillar :: "(context_key \<rightharpoonup> 'c) \<Rightarrow> 'c completion" where
  "usePillar ancestors =
     (case getContext ancestors PILLAR_CONTEXT_KEY of
        None \<Rightarrow> Thrown (JsError ''usePillar must be used within a PillarProvider'')
      | Some context \<Rightarrow> Returned context)"

text \<open>The \<^verbatim>\<open>onTask\<close> wrapper of the returned object (lines 94 to 109).\<close>

definition usePillar_onTask :: "string \<Rightarrow> fn \<Rightarrow> provider \<Rightarrow> world \<Rightarrow> thunk \<times> provider \<times> world" where
  "usePillar_onTask taskName h p w =
     (case pillarStore p of
        None \<Rightarrow> (Noop, p, w)
      | Some pillar \<Rightarrow> (case sdk_onTask pillar taskName h w of (u, w') \<Rightarrow> (u, p, w')))"

subsection \<open>stores/useHelpPanel.ts\<close>

definition useHelpPanel :: "(context_key \<rightharpoonup> 'c) \<Rightarrow> 'c completion" where
  "useHelpPanel ancestors =
     (case getContext ancestors PILLAR_CONTEXT_KEY of
        None \<Rightarrow> Thrown (JsError ''useHelpPanel must be used within a PillarProvider'')
      | Some context \<Rightarrow> Returned context)"

definition isOpen :: "provider \<Rightarrow> bool" where
  "isOpen p = isPanelOpenStore p"

definition openSearch :: "string option \<Rightarrow> provider \<Rightarrow> world \<Rightarrow> unit completion \<times> provider \<times> world" where
  "openSearch query p w =
     (if truthy query
      then search (the query) p w
      else open (Some \<lparr>view = Some ''search'', article = None, search_opt = None, focusInput = None\<rparr>) p w)"

definition openChat :: "provider \<Rightarrow> world \<Rightarrow> unit completion \<times> provider \<times> world" where
  "openChat p w = navigate ''chat'' None p w"

section \<open>Entry points of the adapter\<close>

text \<open>
  The listeners the provider registers, as the SDK calls them. The two last ones call a
  function of the embedding application, which is not adapter code.
\<close>

fun run_handler :: "handler \<Rightarrow> provider \<Rightarrow> provider" where
  "run_handler (SetIsPanelOpen b) p = p\<lparr>isPanelOpenStore := b\<rparr>"
| "run_handler (SetState s) p = p\<lparr>stateStore := s\<rparr>"
| "run_handler (ForwardTask f) p = p"
| "run_handler (Callback f) p = p"

text \<open>
  Modelled from the spec: when the SDK emits an event it calls, in subscription order,
  every listener currently subscribed to that event. A listener of the adapter is a
  closure over the stores of the provider that subscribed it, so it acts on provider \<open>p\<close>
  only if \<open>p\<close> subscribed it; those are the subscriptions whose unsubscribe function \<open>p\<close>
  pushed onto its \<open>cleanupFunctions\<close>. A listener of another provider leaves \<open>p\<close> alone.
\<close>

fun emit_to :: "event \<Rightarrow> (nat \<times> registration) list \<Rightarrow> provider \<Rightarrow> provider" where
  "emit_to ev [] p = p"
| "emit_to ev ((k, Listener ev' h) # rest) p =
     emit_to ev rest
       (if ev' = ev \<and> SdkUnsubscribe k \<in> set (cleanupFunctions p) then run_handler h p else p)"
| "emit_to ev ((k, r) # rest) p = emit_to ev rest p"

definition emit :: "event \<Rightarrow> provider \<Rightarrow> world \<Rightarrow> provider" where
  "emit ev p w = emit_to ev (registrations w) p"

text \<open>
  Everything that runs adapter code after the component script has run: the ten
  pass-through operations of the context, the two hook conveniences and the typed
  \<^verbatim>\<open>onTask\<close>, the two lifecycle callbacks, a listener called by the SDK, a card renderer
  called by the SDK, and a call of a function the adapter returned.
\<close>

datatype action =
    Open "open_options option"
  | Close
  | Toggle
  | OpenArticle string
  | OpenCategory string
  | Search string
  | Navigate string "json option"
  | SetTheme json
  | SetTextSelectionEnabled bool
  | On event fn
  | OnTask string fn
  | OpenSearch "string option"
  | OpenChat
  | Mount "js_error + pillar_instance"
  | Destroy
  | Listen handler
  | RenderCard component element json card_callbacks
  | RunThunk thunk

fun step :: "action \<Rightarrow> provider \<times> world \<Rightarrow> provider \<times> world" where
  "step (Open options) (p, w) = snd (open options p w)"
| "step Close (p, w) = snd (close p w)"
| "step Toggle (p, w) = snd (toggle p w)"
| "step (OpenArticle slug) (p, w) = snd (openArticle slug p w)"
| "step (OpenCategory slug) (p, w) = snd (openCategory slug p w)"
| "step (Search query) (p, w) = snd (search query p w)"
| "step (Navigate v params) (p, w) = snd (navigate v params p w)"
| "step (SetTheme theme) (p, w) = snd (setTheme theme p w)"
| "step (SetTextSelectionEnabled enabled) (p, w) = snd (setTextSelectionEnabled enabled p w)"
| "step (On ev callback) (p, w) = snd (on ev callback p w)"
| "step (OnTask taskName h) (p, w) = snd (usePillar_onTask taskName h p w)"
| "step (OpenSearch query) (p, w) = snd (openSearch query p w)"
| "step OpenChat (p, w) = snd (openChat p w)"
| "step (Mount outcome) (p, w) = snd (onMount outcome p w)"
| "step Destroy (p, w) = onDestroy p w"
| "step (Listen h) (p, w) = (run_handler h p, w)"
| "step (RenderCard c container d callbacks) (p, w) = snd (card_renderer c container d callbacks p w)"
| "step (RunThunk t) (p, w) = run_thunk t p w"

fun passthrough :: "action \<Rightarrow> bool" where
  "passthrough (Open options) = True"
| "passthrough Close = True"
| "passthrough Toggle = True"
| "passthrough (OpenArticle slug) = True"
| "passthrough (OpenCategory slug) = True"
| "passthrough (Search query) = True"
| "passthrough (Navigate v params) = True"
| "passthrough (SetTheme theme) = True"
| "passthrough (SetTextSelectionEnabled enabled) = True"
| "passthrough (On ev callback) = True"
| "passthrough a = False"

text \<open>The calls the SDK received while an operation ran from world \<open>w\<close> to world \<open>w'\<close>.\<close>

definition calls_made :: "world \<Rightarrow> world \<Rightarrow> sdk_call list" where
  "calls_made w w' = drop (length (sdk_log w)) (sdk_log w')"

section \<open>Sample inputs\<close>

definition quiet_world :: world where
  "quiet_world =
     \<lparr>singleton = None, sdk_log = [], registrations = [], console = [], mounted = [],
      fresh = 0, control_fails = (\<lambda>m. None)\<rparr>"

definition sample_instance :: pillar_instance where
  "sample_instance = \<lparr>inst_id = 7, inst_state = OtherState ''initializing''\<rparr>"

definition running_world :: world where
  "running_world = quiet_world\<lparr>singleton := Some sample_instance\<rparr>"

definition sample_props :: provider_props where
  "sample_props =
     \<lparr>productKey = Some ''pk_live'', helpCenter = None, config = None, onTask = Some 3,
      cards = Some [(''invite'', 11), (''export'', 12)], children = Some 1\<rparr>"

definition new_provider :: provider where
  "new_provider = fst (PillarProvider sample_props quiet_world)"

definition attached_provider :: provider where
  "attached_provider = new_provider\<lparr>pillarStore := Some 7\<rparr>"

definition sample_callbacks :: card_callbacks where
  "sample_callbacks = \<lparr>onConfirm = 21, onCancel = 22, onStateChange = Some 23\<rparr>"


section \<open>Activation, invariants and further samples\<close>

text \<open>One activation of the provider: the component script, then the \<^verbatim>\<open>onMount\<close> callback.\<close>

definition activate :: "provider_props \<Rightarrow> js_error + pillar_instance \<Rightarrow> world \<Rightarrow> provider \<times> world" where
  "activate pr outcome w = (case PillarProvider pr w of (p, w1) \<Rightarrow> snd (onMount outcome p w1))"

text \<open>A stretch of the SDK's call log that holds unsubscribe calls only.\<close>

fun is_unsubscribed :: "sdk_call \<Rightarrow> bool" where
  "is_unsubscribed (Unsubscribed k) = True"
| "is_unsubscribed c = False"

definition unsubscribes_only :: "sdk_call list \<Rightarrow> bool" where
  "unsubscribes_only calls = (\<forall>c \<in> set calls. is_unsubscribed c)"

text \<open>
  \<open>cleanupFunctions\<close> only ever receives what \<^verbatim>\<open>instance.on\<close> and
  \<^verbatim>\<open>instance.registerCard\<close> returned.
\<close>

fun is_sdk_unsubscribe :: "thunk \<Rightarrow> bool" where
  "is_sdk_unsubscribe (SdkUnsubscribe k) = True"
| "is_sdk_unsubscribe t = False"

definition tracks_sdk_unsubscribes :: "provider \<Rightarrow> bool" where
  "tracks_sdk_unsubscribes p = (\<forall>t \<in> set (cleanupFunctions p). is_sdk_unsubscribe t)"

text \<open>
  Which event a listener over one of the stores belongs to: the panel-open store is set
  to true on \<^verbatim>\<open>panel:open\<close> and to false on \<^verbatim>\<open>panel:close\<close>, the state store to
  \<^verbatim>\<open>'ready'\<close> on \<^verbatim>\<open>ready\<close> and to \<^verbatim>\<open>'error'\<close> on \<^verbatim>\<open>error\<close>.
\<close>

fun listener_bound :: "registration \<Rightarrow> bool" where
  "listener_bound (Listener ev (SetIsPanelOpen b)) = (ev = (if b then PanelOpen else PanelClose))"
| "listener_bound (Listener ev (SetState s)) = (ev = ReadyEvent \<and> s = Ready \<or> ev = ErrorEvent \<and> s = Error)"
| "listener_bound r = True"

definition listeners_bound :: "world \<Rightarrow> bool" where
  "listeners_bound w = (\<forall>kr \<in> set (registrations w). listener_bound (snd kr))"

text \<open>
  A first activation that initializes the SDK, a card rendered after it into container
  40, a second card rendered into the same container or into another one, an activation
  that finds the singleton, and two sets of props with an empty identifier.
\<close>

definition first_activation :: "provider \<times> world" where
  "first_activation = activate sample_props (Inr sample_instance) quiet_world"

definition rendered_card :: "thunk \<times> provider \<times> world" where
  "rendered_card =
     card_renderer 11 40 [(''email'', ''ada@example.org'')] sample_callbacks
       (fst first_activation) (snd first_activation)"

definition reactivation :: "provider \<times> world" where
  "reactivation = activate sample_props (Inl (JsError ''unused'')) running_world"

definition rerendered_card :: "thunk \<times> provider \<times> world" where
  "rerendered_card =
     card_renderer 12 40 [(''format'', ''csv'')] sample_callbacks
       (fst (snd rendered_card)) (snd (snd rendered_card))"


definition empty_key_props :: provider_props where
  "empty_key_props = sample_props\<lparr>productKey := Some '''', helpCenter := Some ''legacy-help''\<rparr>"

definition empty_alias_props :: provider_props where
  "empty_alias_props = sample_props\<lparr>productKey := None, helpCenter := Some ''''\<rparr>"


section \<open>Unfolding the operations\<close>

lemmas op_defs = open_def close_def toggle_def openArticle_def openCategory_def search_def
  navigate_def setTheme_def setTextSelectionEnabled_def on_def optional_call_def

lemmas sample_defs = quiet_world_def running_world_def sample_instance_def sample_props_def
  new_provider_def attached_provider_def sample_callbacks_def PillarProvider_def
  truthy_def nullish_or_def

lemmas mount_defs = activate_def onMount_def onMount_try_def Pillar_init_def init_argument_def
  after_init_def
  reuse_existing_def Let_def subscribe_and_track_def sdk_on_def sdk_subscribe_def
  registerCards_def sdk_registerCard_def

lemma is_unsubscribed_iff: "is_unsubscribed c = (\<exists>k. c = Unsubscribed k)"
  by (cases c) simp_all

lemma is_sdk_unsubscribe_iff: "is_sdk_unsubscribe t = (\<exists>k. t = SdkUnsubscribe k)"
  by (cases t) simp_all

lemma new_provider_detached: "pillarStore new_provider = None"
  by (simp add: sample_defs)

lemma attached_provider_instance: "pillarStore attached_provider = Some 7"
  by (simp add: sample_defs)


section \<open>The pass-through operations\<close>

text \<open>
  C1. Each of the ten pass-through operations of the context (open, close, toggle,
  openArticle, openCategory, search, navigate, setTheme, setTextSelectionEnabled, on), for
  all arguments: while the instance store holds \<^verbatim>\<open>null\<close> the operation returns normally
  and leaves the provider and the world as they were, and \<open>on\<close> returns the no-op
  unsubscribe function; while the store holds an instance the SDK receives exactly one
  call, on that instance, of the corresponding method with the arguments as given
  (\<open>openArticle\<close> and \<open>search\<close> call \<^verbatim>\<open>open\<close> with the slug or the query as the only
  option, \<open>openCategory\<close> calls \<^verbatim>\<open>navigate\<close> to the category view with the slug).
\<close>

theorem passthrough_noop_or_delegate:
  "(pillarStore p = None \<longrightarrow>
      open options p w = (Returned (), p, w) \<and>
      close p w = (Returned (), p, w) \<and>
      toggle p w = (Returned (), p, w) \<and>
      openArticle slug p w = (Returned (), p, w) \<and>
      openCategory slug p w = (Returned (), p, w) \<and>
      search query p w = (Returned (), p, w) \<and>
      navigate v params p w = (Returned (), p, w) \<and>
      setTheme theme p w = (Returned (), p, w) \<and>
      setTextSelectionEnabled enabled p w = (Returned (), p, w) \<and>
      on ev callback p w = (Returned Noop, p, w)) \<and>
   (pillarStore p = Some i \<longrightarrow>
      calls_made w (snd (snd (open options p w))) = [Call i (MOpen options)] \<and>
      calls_made w (snd (snd (close p w))) = [Call i MClose] \<and>
      calls_made w (snd (snd (toggle p w))) = [Call i MToggle] \<and>
      calls_made w (snd (snd (openArticle slug p w))) =
        [Call i (MOpen (Some \<lparr>view = None, article = Some slug, search_opt = None, focusInput = None\<rparr>))] \<and>
      calls_made w (snd (snd (openCategory slug p w))) =
        [Call i (MNavigate ''category'' (Some [(''slug'', slug)]))] \<and>
      calls_made w (snd (snd (search query p w))) =
        [Call i (MOpen (Some \<lparr>view = None, article = None, search_opt = Some query, focusInput = None\<rparr>))] \<and>
      calls_made w (snd (snd (navigate v params p w))) = [Call i (MNavigate v params)] \<and>
      calls_made w (snd (snd (setTheme theme p w))) = [Call i (MSetTheme theme)] \<and>
      calls_made w (snd (snd (setTextSelectionEnabled enabled p w))) =
        [Call i (MSetTextSelectionEnabled enabled)] \<and>
      calls_made w (snd (snd (on ev callback p w))) = [Call i (MOn ev (Callback callback))])"
  by (simp add: op_defs calls_made_def sdk_control_def sdk_on_def sdk_subscribe_def)

theorem passthrough_noop_or_delegate_witness:
  "pillarStore new_provider = None \<and>
   openArticle ''billing'' new_provider quiet_world = (Returned (), new_provider, quiet_world) \<and>
   on ReadyEvent 9 new_provider quiet_world = (Returned Noop, new_provider, quiet_world) \<and>
   pillarStore attached_provider = Some 7 \<and>
   calls_made quiet_world (snd (snd (openArticle ''billing'' attached_provider quiet_world))) =
     [Call 7 (MOpen (Some \<lparr>view = None, article = Some ''billing'', search_opt = None,
                           focusInput = None\<rparr>))] \<and>
   calls_made quiet_world (snd (snd (on ReadyEvent 9 attached_provider quiet_world))) =
     [Call 7 (MOn ReadyEvent (Callback 9))]"
  using passthrough_noop_or_delegate
          [where p = new_provider and w = quiet_world and slug = "''billing''" and ev = ReadyEvent
             and callback = 9]
        passthrough_noop_or_delegate
          [where p = attached_provider and w = quiet_world and slug = "''billing''" and i = 7
             and ev = ReadyEvent and callback = 9]
        new_provider_detached attached_provider_instance
  by simp


section \<open>Effects of the building blocks\<close>

lemma registerCards_loop_stores:
  "registerCards_loop i cs p w = (p', w') \<Longrightarrow>
     pillarStore p' = pillarStore p \<and> stateStore p' = stateStore p \<and>
     isPanelOpenStore p' = isPanelOpenStore p"
  by (induction i cs p w rule: registerCards_loop.induct) (auto split: prod.splits)

lemma run_thunk_stores:
  "run_thunk t p w = (p', w') \<Longrightarrow>
     pillarStore p' = pillarStore p \<and> stateStore p' = stateStore p \<and>
     isPanelOpenStore p' = isPanelOpenStore p"
  by (cases t) (auto split: option.splits)

lemma run_all_stores:
  "run_all ts p w = (p', w') \<Longrightarrow>
     pillarStore p' = pillarStore p \<and> stateStore p' = stateStore p \<and>
     isPanelOpenStore p' = isPanelOpenStore p"
proof (induction ts arbitrary: p w)
  case Nil
  then show ?case by simp
next
  case (Cons t ts)
  obtain p1 w1 where t: "run_thunk t p w = (p1, w1)" by (cases "run_thunk t p w")
  with Cons.prems have "run_all ts p1 w1 = (p', w')" by simp
  from Cons.IH [OF this] run_thunk_stores [OF t] show ?case by simp
qed

lemma optional_call_provider: "fst (snd (optional_call m p w)) = p"
  by (simp add: optional_call_def split: option.splits prod.splits)

lemma on_provider: "fst (snd (on ev callback p w)) = p"
  by (simp add: on_def split: option.splits prod.splits)

lemma passthrough_provider: "passthrough a \<Longrightarrow> fst (step a (p, w)) = p"
  by (cases a)
     (simp_all add: open_def close_def toggle_def openArticle_def openCategory_def search_def
        navigate_def setTheme_def setTextSelectionEnabled_def optional_call_provider on_provider)

lemma openSearch_provider: "fst (snd (openSearch query p w)) = p"
  by (simp add: openSearch_def open_def search_def optional_call_provider)

lemma usePillar_onTask_provider: "fst (snd (usePillar_onTask taskName h p w)) = p"
  by (simp add: usePillar_onTask_def split: option.splits prod.splits)

lemma card_renderer_stores:
  "pillarStore (fst (snd (card_renderer c container d callbacks p w))) = pillarStore p \<and>
   stateStore (fst (snd (card_renderer c container d callbacks p w))) = stateStore p \<and>
   isPanelOpenStore (fst (snd (card_renderer c container d callbacks p w))) = isPanelOpenStore p"
  by (simp add: card_renderer_def split: prod.splits)

lemma registerCards_stores:
  "registerCards i p w = (p', w') \<Longrightarrow>
     pillarStore p' = pillarStore p \<and> stateStore p' = stateStore p \<and>
     isPanelOpenStore p' = isPanelOpenStore p"
  by (auto simp: registerCards_def split: option.splits dest: registerCards_loop_stores)

lemma subscribe_and_track_stores:
  "pillarStore (fst (subscribe_and_track i ev h pw)) = pillarStore (fst pw) \<and>
   stateStore (fst (subscribe_and_track i ev h pw)) = stateStore (fst pw) \<and>
   isPanelOpenStore (fst (subscribe_and_track i ev h pw)) = isPanelOpenStore (fst pw)"
  by (simp add: subscribe_and_track_def split: prod.splits)

lemma reuse_existing_stores:
  "reuse_existing e p w = (p', w') \<Longrightarrow>
     pillarStore p' = Some (inst_id e) \<and> stateStore p' = inst_state e \<and>
     isPanelOpenStore p' = isPanelOpenStore p"
  unfolding reuse_existing_def Let_def
  by (auto dest!: registerCards_stores simp: subscribe_and_track_stores)

lemma after_init_stores:
  "after_init e p w = (p', w') \<Longrightarrow>
     pillarStore p' = Some (inst_id e) \<and> stateStore p' = inst_state e \<and>
     isPanelOpenStore p' = isPanelOpenStore p"
  unfolding after_init_def Let_def
  by (auto dest!: registerCards_stores simp: subscribe_and_track_stores split: option.splits)

lemma onMount_reuse:
  "singleton w = Some e \<Longrightarrow> onMount outcome p w = (Returned (), reuse_existing e p w)"
  by (simp add: onMount_def onMount_try_def split: prod.splits)

lemma onMount_failure:
  "singleton w = None \<Longrightarrow>
     onMount (Inl err) p w =
       (Returned (),
        p\<lparr>stateStore := Error\<rparr>,
        w\<lparr>sdk_log := sdk_log w @
             [StaticInit (init_argument (resolvedKey p) (config (given p)))],
          console := console w @ [ErrorLog ''[Pillar Svelte] Failed to initialize:'' err]\<rparr>)"
  by (simp add: onMount_def onMount_try_def Pillar_init_def)

lemma onMount_success:
  "singleton w = None \<Longrightarrow>
     onMount (Inr inst) p w =
       (Returned (),
        after_init inst p
          (w\<lparr>sdk_log := sdk_log w @
               [StaticInit (init_argument (resolvedKey p) (config (given p)))],
             singleton := Some inst\<rparr>))"
  by (simp add: onMount_def onMount_try_def Pillar_init_def split: prod.splits)

lemma onMount_panel:
  "isPanelOpenStore (fst (snd (onMount outcome p w))) = isPanelOpenStore p"
proof (cases "singleton w")
  case (Some e)
  obtain p' w' where r: "reuse_existing e p w = (p', w')" by (cases "reuse_existing e p w")
  with Some reuse_existing_stores [OF r] show ?thesis by (simp add: onMount_reuse)
next
  case None
  show ?thesis
  proof (cases outcome)
    case (Inl err)
    with None show ?thesis by (simp add: onMount_failure)
  next
    case (Inr inst)
    let ?w1 = "w\<lparr>sdk_log := sdk_log w @
               [StaticInit (init_argument (resolvedKey p) (config (given p)))],
             singleton := Some inst\<rparr>"
    obtain p' w' where r: "after_init inst p ?w1 = (p', w')" by (cases "after_init inst p ?w1")
    with None Inr after_init_stores [OF r] show ?thesis by (simp add: onMount_success)
  qed
qed

lemma onDestroy_stores:
  "pillarStore (fst (onDestroy p w)) = pillarStore p \<and>
   stateStore (fst (onDestroy p w)) = stateStore p \<and>
   isPanelOpenStore (fst (onDestroy p w)) = isPanelOpenStore p"
  by (auto simp: onDestroy_def Let_def split: prod.splits dest: run_all_stores)

lemma registerCards_loop_world:
  "registerCards_loop i cs p w = (p', w') \<Longrightarrow>
     singleton w' = singleton w \<and> console w' = console w \<and> mounted w' = mounted w \<and>
     control_fails w' = control_fails w \<and>
     fresh w' = fresh w + length cs \<and>
     registrations w' =
       registrations w @
       map (\<lambda>(k, tc). (k, CardRenderer (fst tc) (snd tc))) (zip [fresh w ..< fresh w + length cs] cs) \<and>
     sdk_log w' = sdk_log w @ map (\<lambda>tc. Call i (MRegisterCard (fst tc) (snd tc))) cs \<and>
     cardInstances p' = cardInstances p \<and> given p' = given p \<and> resolvedKey p' = resolvedKey p \<and>
     cleanupFunctions p' = cleanupFunctions p @ map SdkUnsubscribe [fresh w ..< fresh w + length cs]"
proof (induction i cs p w rule: registerCards_loop.induct)
  case (1 i p w)
  then show ?case by simp
next
  case (2 i cardType c rest p w)
  let ?w1 = "snd (sdk_registerCard i cardType c w)"
  let ?u = "fst (sdk_registerCard i cardType c w)"
  let ?p1 = "p\<lparr>cleanupFunctions := cleanupFunctions p @ [?u]\<rparr>"
  have run: "registerCards_loop i rest ?p1 ?w1 = (p', w')"
    using "2.prems" by (simp split: prod.splits)
  have ih: "singleton w' = singleton ?w1 \<and> console w' = console ?w1 \<and> mounted w' = mounted ?w1 \<and>
     control_fails w' = control_fails ?w1 \<and>
     fresh w' = fresh ?w1 + length rest \<and>
     registrations w' =
       registrations ?w1 @
       map (\<lambda>(k, tc). (k, CardRenderer (fst tc) (snd tc))) (zip [fresh ?w1 ..< fresh ?w1 + length rest] rest) \<and>
     sdk_log w' = sdk_log ?w1 @ map (\<lambda>tc. Call i (MRegisterCard (fst tc) (snd tc))) rest \<and>
     cardInstances p' = cardInstances ?p1 \<and> given p' = given ?p1 \<and> resolvedKey p' = resolvedKey ?p1 \<and>
     cleanupFunctions p' = cleanupFunctions ?p1 @ map SdkUnsubscribe [fresh ?w1 ..< fresh ?w1 + length rest]"
    by (rule "2.IH" [OF _ run]) (simp add: prod_eq_iff)
  have w1: "singleton ?w1 = singleton w" "console ?w1 = console w" "mounted ?w1 = mounted w"
    "control_fails ?w1 = control_fails w" "fresh ?w1 = Suc (fresh w)"
    "registrations ?w1 = registrations w @ [(fresh w, CardRenderer cardType c)]"
    "sdk_log ?w1 = sdk_log w @ [Call i (MRegisterCard cardType c)]"
    "?u = SdkUnsubscribe (fresh w)"
    by (simp_all add: sdk_registerCard_def sdk_subscribe_def)
  have up: "[fresh w ..< fresh w + length ((cardType, c) # rest)] =
        fresh w # [Suc (fresh w) ..< Suc (fresh w) + length rest]"
    by (simp add: upt_rec)
  show ?case
    unfolding up using ih by (simp add: w1)
qed

lemma registerCards_world:
  "registerCards i p w = (p', w') \<Longrightarrow>
     singleton w' = singleton w \<and> console w' = console w \<and> mounted w' = mounted w \<and>
     given p' = given p \<and> cardInstances p' = cardInstances p"
  by (auto simp: registerCards_def split: option.splits dest: registerCards_loop_world)

lemma subscribe_and_track_world:
  "singleton (snd (subscribe_and_track i ev h pw)) = singleton (snd pw) \<and>
   console (snd (subscribe_and_track i ev h pw)) = console (snd pw) \<and>
   mounted (snd (subscribe_and_track i ev h pw)) = mounted (snd pw) \<and>
   given (fst (subscribe_and_track i ev h pw)) = given (fst pw) \<and>
   cardInstances (fst (subscribe_and_track i ev h pw)) = cardInstances (fst pw)"
  by (simp add: subscribe_and_track_def sdk_on_def sdk_subscribe_def split: prod.splits)

lemma reuse_existing_world:
  "reuse_existing e p w = (p', w') \<Longrightarrow>
     singleton w' = singleton w \<and> console w' = console w \<and> mounted w' = mounted w \<and>
     given p' = given p \<and> cardInstances p' = cardInstances p"
  unfolding reuse_existing_def Let_def
  by (auto dest!: registerCards_world simp: subscribe_and_track_world)

lemma reuse_existing_never_initializes:
  "reuse_existing e p w = (p', w') \<Longrightarrow> StaticInit options \<notin> set (calls_made w w')"
proof -
  assume r: "reuse_existing e p w = (p', w')"
  let ?pw3 = "subscribe_and_track (inst_id e) PanelOpen (SetIsPanelOpen True)
                (p\<lparr>pillarStore := Some (inst_id e), stateStore := inst_state e\<rparr>, w)"
  let ?pw4 = "subscribe_and_track (inst_id e) PanelClose (SetIsPanelOpen False) ?pw3"
  have log4: "sdk_log (snd ?pw4) =
      sdk_log w @ [Call (inst_id e) (MOn PanelOpen (SetIsPanelOpen True)),
                   Call (inst_id e) (MOn PanelClose (SetIsPanelOpen False))]"
    by (simp add: subscribe_and_track_def sdk_on_def sdk_subscribe_def)
  from r have rc: "registerCards (inst_id e) (fst ?pw4) (snd ?pw4) = (p', w')"
    by (simp add: reuse_existing_def Let_def)
  have "\<exists>calls. sdk_log w' = sdk_log (snd ?pw4) @ calls \<and> StaticInit options \<notin> set calls"
  proof (cases "cards (given (fst ?pw4))")
    case None
    with rc show ?thesis by (simp add: registerCards_def)
  next
    case (Some cs)
    with rc have "registerCards_loop (inst_id e) cs (fst ?pw4) (snd ?pw4) = (p', w')"
      by (simp add: registerCards_def)
    from registerCards_loop_world [OF this] show ?thesis by auto
  qed
  with log4 show ?thesis by (auto simp: calls_made_def)
qed

lemma run_thunk_singleton:
  "run_thunk t p w = (p', w') \<Longrightarrow> singleton w' = singleton w"
  by (cases t) (auto simp: sdk_unsubscribe_def unmount_def split: option.splits)

lemma run_all_singleton:
  "run_all ts p w = (p', w') \<Longrightarrow> singleton w' = singleton w"
proof (induction ts arbitrary: p w)
  case Nil
  then show ?case by simp
next
  case (Cons t ts)
  obtain p1 w1 where t: "run_thunk t p w = (p1, w1)" by (cases "run_thunk t p w")
  with Cons.prems have "run_all ts p1 w1 = (p', w')" by simp
  from Cons.IH [OF this] run_thunk_singleton [OF t] show ?case by simp
qed

lemma fold_unmount_singleton: "singleton (fold unmount hs w) = singleton w"
  by (induction hs arbitrary: w) (simp_all add: unmount_def)

lemma onDestroy_singleton: "singleton (snd (onDestroy p w)) = singleton w"
  by (auto simp: onDestroy_def Let_def fold_unmount_singleton split: prod.splits
      dest: run_all_singleton)

lemma PillarProvider_singleton: "singleton (snd (PillarProvider pr w)) = singleton w"
  by (simp add: PillarProvider_def)

lemma PillarProvider_stores:
  "pillarStore (fst (PillarProvider pr w)) = None \<and>
   stateStore (fst (PillarProvider pr w)) = Uninitialized \<and>
   isPanelOpenStore (fst (PillarProvider pr w)) = False"
  by (simp add: PillarProvider_def)

lemma first_activation_value:
  "first_activation =
     (\<lparr>given = sample_props, resolvedKey = Some ''pk_live'', pillarStore = Some 7,
       stateStore = OtherState ''initializing'', isPanelOpenStore = False,
       cleanupFunctions = map SdkUnsubscribe [0, 1, 2, 3, 4, 5, 6], cardInstances = []\<rparr>,
      \<lparr>singleton = Some sample_instance,
       sdk_log =
         [StaticInit [(''productKey'', Some ''pk_live'')],
          Call 7 (MOn PanelOpen (SetIsPanelOpen True)),
          Call 7 (MOn PanelClose (SetIsPanelOpen False)),
          Call 7 (MOn ReadyEvent (SetState Ready)),
          Call 7 (MOn ErrorEvent (SetState Error)),
          Call 7 (MOn TaskExecute (ForwardTask 3)),
          Call 7 (MRegisterCard ''invite'' 11),
          Call 7 (MRegisterCard ''export'' 12)],
       registrations =
         [(0, Listener PanelOpen (SetIsPanelOpen True)),
          (1, Listener PanelClose (SetIsPanelOpen False)),
          (2, Listener ReadyEvent (SetState Ready)),
          (3, Listener ErrorEvent (SetState Error)),
          (4, Listener TaskExecute (ForwardTask 3)),
          (5, CardRenderer ''invite'' 11),
          (6, CardRenderer ''export'' 12)],
       console = [], mounted = [], fresh = 7, control_fails = (\<lambda>m. None)\<rparr>)"
  by (simp add: first_activation_def mount_defs sample_defs)

lemma reactivation_value:
  "reactivation =
     (\<lparr>given = sample_props, resolvedKey = Some ''pk_live'', pillarStore = Some 7,
       stateStore = OtherState ''initializing'', isPanelOpenStore = False,
       cleanupFunctions = map SdkUnsubscribe [0, 1, 2, 3], cardInstances = []\<rparr>,
      \<lparr>singleton = Some sample_instance,
       sdk_log =
         [Call 7 (MOn PanelOpen (SetIsPanelOpen True)),
          Call 7 (MOn PanelClose (SetIsPanelOpen False)),
          Call 7 (MRegisterCard ''invite'' 11),
          Call 7 (MRegisterCard ''export'' 12)],
       registrations =
         [(0, Listener PanelOpen (SetIsPanelOpen True)),
          (1, Listener PanelClose (SetIsPanelOpen False)),
          (2, CardRenderer ''invite'' 11),
          (3, CardRenderer ''export'' 12)],
       console = [], mounted = [], fresh = 4, control_fails = (\<lambda>m. None)\<rparr>)"
  by (simp add: reactivation_def mount_defs sample_defs)


section \<open>Failure of the initializer\<close>

text \<open>
  C2. Whenever \<^verbatim>\<open>Pillar.init\<close> is reached (no singleton exists) and fails, by rejection
  or by exception, with any error: the failure arises inside the \<^verbatim>\<open>try\<close> block, the
  \<open>onMount\<close> callback nevertheless returns normally, the state store holds the error
  value, the error is appended to the console as one \<^verbatim>\<open>console.error\<close> entry, and what
  the provider renders (its children) is what it rendered before.
\<close>

theorem init_failure_is_contained:
  "singleton w = None \<Longrightarrow>
     fst (onMount_try (Inl err) p w) = Thrown err \<and>
     fst (onMount (Inl err) p w) = Returned () \<and>
     stateStore (fst (snd (onMount (Inl err) p w))) = Error \<and>
     pillarStore (fst (snd (onMount (Inl err) p w))) = pillarStore p \<and>
     console (snd (snd (onMount (Inl err) p w))) =
       console w @ [ErrorLog ''[Pillar Svelte] Failed to initialize:'' err] \<and>
     rendered (fst (snd (onMount (Inl err) p w))) = rendered p"
  by (simp add: onMount_failure rendered_def) (simp add: onMount_try_def Pillar_init_def)

theorem init_failure_is_contained_witness:
  "singleton quiet_world = None \<and>
   fst (onMount (Inl (JsError ''network'')) new_provider quiet_world) = Returned () \<and>
   stateStore (fst (snd (onMount (Inl (JsError ''network'')) new_provider quiet_world))) = Error \<and>
   console (snd (snd (onMount (Inl (JsError ''network'')) new_provider quiet_world))) =
     [ErrorLog ''[Pillar Svelte] Failed to initialize:'' (JsError ''network'')] \<and>
   rendered (fst (snd (onMount (Inl (JsError ''network'')) new_provider quiet_world))) = Some 1"
proof -
  have s: "singleton quiet_world = None" by (simp add: quiet_world_def)
  have c: "console quiet_world = []" by (simp add: quiet_world_def)
  have r: "rendered new_provider = Some 1" by (simp add: rendered_def sample_defs)
  from init_failure_is_contained [OF s, of "JsError ''network''" new_provider] s c r
  show ?thesis by simp
qed


section \<open>Deactivation and reactivation\<close>

lemma run_thunk_log:
  "run_thunk t p w = (p', w') \<Longrightarrow>
     \<exists>calls. sdk_log w' = sdk_log w @ calls \<and> unsubscribes_only calls"
  by (cases t) (auto simp: sdk_unsubscribe_def unmount_def unsubscribes_only_def is_unsubscribed_iff split: option.splits)

lemma run_all_log:
  "run_all ts p w = (p', w') \<Longrightarrow>
     \<exists>calls. sdk_log w' = sdk_log w @ calls \<and> unsubscribes_only calls"
proof (induction ts arbitrary: p w)
  case Nil
  then show ?case by (simp add: unsubscribes_only_def is_unsubscribed_iff)
next
  case (Cons t ts)
  obtain p1 w1 where t: "run_thunk t p w = (p1, w1)" by (cases "run_thunk t p w")
  with Cons.prems have r: "run_all ts p1 w1 = (p', w')" by simp
  from run_thunk_log [OF t] obtain c1 where c1: "sdk_log w1 = sdk_log w @ c1" "unsubscribes_only c1"
    by blast
  from Cons.IH [OF r] obtain c2 where c2: "sdk_log w' = sdk_log w1 @ c2" "unsubscribes_only c2"
    by blast
  from c1 c2 have "sdk_log w' = sdk_log w @ (c1 @ c2) \<and> unsubscribes_only (c1 @ c2)"
    by (auto simp: unsubscribes_only_def is_unsubscribed_iff)
  then show ?case by blast
qed

lemma fold_unmount_log: "sdk_log (fold unmount hs w) = sdk_log w"
  by (induction hs arbitrary: w) (simp_all add: unmount_def)

lemma onDestroy_log: "unsubscribes_only (calls_made w (snd (onDestroy p w)))"
proof -
  obtain p1 w1 where r: "run_all (cleanupFunctions p) p w = (p1, w1)"
    by (cases "run_all (cleanupFunctions p) p w")
  from run_all_log [OF r] obtain calls where "sdk_log w1 = sdk_log w @ calls" "unsubscribes_only calls"
    by blast
  with r show ?thesis
    by (simp add: onDestroy_def Let_def fold_unmount_log calls_made_def)
qed

lemma activate_reuses:
  assumes "singleton w = Some inst"
  shows "pillarStore (fst (activate pr outcome w)) = Some (inst_id inst)"
    and "stateStore (fst (activate pr outcome w)) = inst_state inst"
    and "StaticInit options \<notin> set (calls_made w (snd (activate pr outcome w)))"
proof -
  let ?p = "fst (PillarProvider pr w)" and ?w1 = "snd (PillarProvider pr w)"
  have s: "singleton ?w1 = Some inst" using assms by (simp add: PillarProvider_singleton)
  have l: "sdk_log ?w1 = sdk_log w" by (simp add: PillarProvider_def)
  obtain p' w' where r: "reuse_existing inst ?p ?w1 = (p', w')"
    by (cases "reuse_existing inst ?p ?w1")
  have a: "activate pr outcome w = (p', w')"
    by (simp add: activate_def split_beta onMount_reuse [OF s] r)
  from reuse_existing_stores [OF r] a
  show "pillarStore (fst (activate pr outcome w)) = Some (inst_id inst)"
    and "stateStore (fst (activate pr outcome w)) = inst_state inst"
    by simp_all
  from reuse_existing_never_initializes [OF r, of options] a l
  show "StaticInit options \<notin> set (calls_made w (snd (activate pr outcome w)))"
    by (simp add: calls_made_def)
qed

lemma first_activation_singleton: "singleton (snd first_activation) = Some sample_instance"
proof -
  have s: "singleton (snd (PillarProvider sample_props quiet_world)) = None"
    by (simp add: PillarProvider_singleton quiet_world_def)
  let ?p = "fst (PillarProvider sample_props quiet_world)"
  let ?w = "snd (PillarProvider sample_props quiet_world)"
  let ?w1 = "?w\<lparr>sdk_log := sdk_log ?w @
       [StaticInit (init_argument (resolvedKey ?p) (config (given ?p)))],
     singleton := Some sample_instance\<rparr>"
  obtain p' w' where r: "after_init sample_instance ?p ?w1 = (p', w')"
    by (cases "after_init sample_instance ?p ?w1")
  then have f: "snd first_activation = w'"
    by (simp add: first_activation_def activate_def split_beta onMount_success [OF s])
  have "singleton w' = Some sample_instance"
    using r unfolding after_init_def Let_def
    by (auto dest!: registerCards_world simp: subscribe_and_track_world split: option.splits)
  then show ?thesis by (simp only: f)
qed

text \<open>
  C3. Let the provider be deactivated in any state, in a world where the singleton exists.
  \<open>onDestroy\<close> leaves the singleton in place and the only calls it makes to the SDK are
  unsubscribe calls. A following activation, of a new provider component with any props,
  does not call the initializer: its instance store holds the singleton and its state
  store holds the singleton's state field, not the initial \<^verbatim>\<open>'uninitialized'\<close>.
\<close>

theorem remount_reuses_singleton:
  "singleton w = Some inst \<Longrightarrow>
     singleton (snd (onDestroy p w)) = Some inst \<and>
     unsubscribes_only (calls_made w (snd (onDestroy p w))) \<and>
     pillarStore (fst (activate pr outcome (snd (onDestroy p w)))) = Some (inst_id inst) \<and>
     stateStore (fst (activate pr outcome (snd (onDestroy p w)))) = inst_state inst \<and>
     StaticInit options \<notin>
       set (calls_made (snd (onDestroy p w)) (snd (activate pr outcome (snd (onDestroy p w)))))"
proof -
  assume s: "singleton w = Some inst"
  then have s2: "singleton (snd (onDestroy p w)) = Some inst"
    by (simp add: onDestroy_singleton)
  from s2 onDestroy_log activate_reuses [OF s2] show ?thesis by simp
qed

theorem remount_reuses_singleton_witness:
  "singleton (snd first_activation) = Some sample_instance \<and>
   singleton (snd (onDestroy (fst first_activation) (snd first_activation))) = Some sample_instance \<and>
   stateStore (fst (activate sample_props (Inl (JsError ''unused''))
                      (snd (onDestroy (fst first_activation) (snd first_activation))))) =
     OtherState ''initializing'' \<and>
   stateStore (fst (PillarProvider sample_props
                      (snd (onDestroy (fst first_activation) (snd first_activation))))) = Uninitialized"
  using remount_reuses_singleton [OF first_activation_singleton, of "fst first_activation"
          sample_props "Inl (JsError ''unused'')"]
        first_activation_singleton
  by (simp add: sample_instance_def PillarProvider_stores)


section \<open>Listeners registered on activation\<close>

lemma emit_ignores_foreign_listeners:
  "emit ReadyEvent new_provider (snd first_activation) = new_provider"
  by (simp add: first_activation_value emit_def new_provider_def PillarProvider_def)

text \<open>
  C4, evaluated on the activation that finds the singleton (in state
  \<^verbatim>\<open>'initializing'\<close>): the reuse path subscribes to \<^verbatim>\<open>panel:open\<close> and
  \<^verbatim>\<open>panel:close\<close> and registers the cards, and that is all; no listener for \<^verbatim>\<open>ready\<close>
  or \<^verbatim>\<open>error\<close> exists, so neither event reaches the state store. On the path that
  initializes the SDK both events do.
\<close>

theorem reuse_path_skips_state_listeners:
  "map snd (registrations (snd reactivation)) =
     [Listener PanelOpen (SetIsPanelOpen True),
      Listener PanelClose (SetIsPanelOpen False),
      CardRenderer ''invite'' 11,
      CardRenderer ''export'' 12] \<and>
   stateStore (fst reactivation) = OtherState ''initializing'' \<and>
   stateStore (emit ReadyEvent (fst reactivation) (snd reactivation)) = OtherState ''initializing'' \<and>
   stateStore (emit ErrorEvent (fst reactivation) (snd reactivation)) = OtherState ''initializing'' \<and>
   stateStore (emit ReadyEvent (fst first_activation) (snd first_activation)) = Ready \<and>
   stateStore (emit ErrorEvent (fst first_activation) (snd first_activation)) = Error"
  by (simp add: reactivation_value first_activation_value emit_def)


section \<open>Card renderers\<close>


lemma card_renderer_mounts:
  "card_renderer c container d callbacks p w =
     (UnmountCard container,
      p\<lparr>cardInstances := AList.update container (fresh w) (cardInstances p)\<rparr>,
      w\<lparr>mounted := mounted w @
           [(fresh w,
             \<lparr>comp = c, target = container,
              given_props = \<lparr>onConfirm = onConfirm callbacks, onCancel = onCancel callbacks,
                             onStateChange = onStateChange callbacks, data = d\<rparr>\<rparr>)],
        fresh := Suc (fresh w)\<rparr>)"
  by (simp add: card_renderer_def mount_def)






lemma subscribe_and_track_tracks:
  "tracks_sdk_unsubscribes (fst pw) \<Longrightarrow> tracks_sdk_unsubscribes (fst (subscribe_and_track i ev h pw))"
  by (auto simp: subscribe_and_track_def sdk_on_def sdk_subscribe_def tracks_sdk_unsubscribes_def is_sdk_unsubscribe_iff
      split: prod.splits)

lemma registerCards_tracks:
  "tracks_sdk_unsubscribes p \<Longrightarrow> tracks_sdk_unsubscribes (fst (registerCards i p w))"
proof (cases "cards (given p)")
  case None
  assume "tracks_sdk_unsubscribes p"
  with None show ?thesis by (simp add: registerCards_def)
next
  case (Some cs)
  assume t: "tracks_sdk_unsubscribes p"
  obtain p' w' where r: "registerCards_loop i cs p w = (p', w')"
    by (cases "registerCards_loop i cs p w")
  from registerCards_loop_world [OF r] t have "tracks_sdk_unsubscribes p'"
    by (auto simp: tracks_sdk_unsubscribes_def is_sdk_unsubscribe_iff)
  with Some r show ?thesis by (simp add: registerCards_def)
qed

lemma store_update_tracks:
  "tracks_sdk_unsubscribes (p\<lparr>pillarStore := a\<rparr>) = tracks_sdk_unsubscribes p"
  "tracks_sdk_unsubscribes (p\<lparr>stateStore := b\<rparr>) = tracks_sdk_unsubscribes p"
  "tracks_sdk_unsubscribes (p\<lparr>isPanelOpenStore := c\<rparr>) = tracks_sdk_unsubscribes p"
  "tracks_sdk_unsubscribes (p\<lparr>cardInstances := d\<rparr>) = tracks_sdk_unsubscribes p"
  by (simp_all add: tracks_sdk_unsubscribes_def is_sdk_unsubscribe_iff)

lemma reuse_existing_tracks:
  "tracks_sdk_unsubscribes p \<Longrightarrow> tracks_sdk_unsubscribes (fst (reuse_existing e p w))"
  unfolding reuse_existing_def Let_def
  by (intro registerCards_tracks subscribe_and_track_tracks) (simp add: store_update_tracks)

lemma after_init_tracks:
  "tracks_sdk_unsubscribes p \<Longrightarrow> tracks_sdk_unsubscribes (fst (after_init e p w))"
  unfolding after_init_def Let_def
  by (cases "onTask (given p)")
     (simp_all add: registerCards_tracks subscribe_and_track_tracks store_update_tracks)

lemma onMount_tracks:
  "tracks_sdk_unsubscribes p \<Longrightarrow> tracks_sdk_unsubscribes (fst (snd (onMount outcome p w)))"
proof (cases "singleton w")
  case (Some e)
  assume "tracks_sdk_unsubscribes p"
  with Some show ?thesis by (simp add: onMount_reuse reuse_existing_tracks)
next
  case None
  assume t: "tracks_sdk_unsubscribes p"
  show ?thesis
  proof (cases outcome)
    case (Inl err)
    with None t show ?thesis by (simp add: onMount_failure store_update_tracks)
  next
    case (Inr inst)
    with None t show ?thesis by (simp add: onMount_success after_init_tracks)
  qed
qed

lemma run_thunk_tracks:
  "tracks_sdk_unsubscribes p \<Longrightarrow> tracks_sdk_unsubscribes (fst (run_thunk t p w))"
  by (cases t) (auto simp: store_update_tracks split: option.splits)

lemma step_tracks:
  "tracks_sdk_unsubscribes p \<Longrightarrow> tracks_sdk_unsubscribes (fst (step a (p, w)))"
proof (cases "passthrough a")
  case True
  assume "tracks_sdk_unsubscribes p"
  with passthrough_provider [OF True] show ?thesis by simp
next
  case False
  assume t: "tracks_sdk_unsubscribes p"
  from False consider
      (task) n h where "a = OnTask n h"
    | (osearch) q where "a = OpenSearch q"
    | (chat) "a = OpenChat"
    | (mount) outcome where "a = Mount outcome"
    | (destroy) "a = Destroy"
    | (listen) h where "a = Listen h"
    | (render) c e d cb where "a = RenderCard c e d cb"
    | (thunk) u where "a = RunThunk u"
    by (cases a) auto
  then show ?thesis
  proof cases
    case task
    with t show ?thesis by (simp add: usePillar_onTask_provider)
  next
    case osearch
    with t show ?thesis by (simp add: openSearch_provider)
  next
    case chat
    with t show ?thesis by (simp add: openChat_def navigate_def optional_call_provider)
  next
    case mount
    with t show ?thesis by (simp add: onMount_tracks)
  next
    case destroy
    then show ?thesis by (simp add: onDestroy_def Let_def split_beta tracks_sdk_unsubscribes_def is_sdk_unsubscribe_iff)
  next
    case (listen h)
    with t show ?thesis by (cases h) (simp_all add: store_update_tracks)
  next
    case render
    with t show ?thesis by (simp add: card_renderer_mounts store_update_tracks)
  next
    case thunk
    with t show ?thesis by (simp add: run_thunk_tracks)
  qed
qed



lemma rendered_card_value:
  "rendered_card =
     (UnmountCard 40,
      (fst first_activation)\<lparr>cardInstances := [(40, 7)]\<rparr>,
      (snd first_activation)
        \<lparr>mounted :=
           [(7, \<lparr>comp = 11, target = 40,
                 given_props = \<lparr>onConfirm = 21, onCancel = 22, onStateChange = Some 23,
                                data = [(''email'', ''ada@example.org'')]\<rparr>\<rparr>)],
         fresh := 8\<rparr>)"
  by (simp add: rendered_card_def card_renderer_mounts first_activation_value sample_callbacks_def)


lemma rerender_leaks_through_teardown:
  "map fst (mounted (snd (onDestroy (fst (snd rerendered_card)) (snd (snd rerendered_card))))) = [7]"
  by (simp add: rerendered_card_def rendered_card_value card_renderer_mounts first_activation_value
      onDestroy_def Let_def sdk_unsubscribe_def unmount_def)




section \<open>Resolution of the identifier\<close>

lemma key_resolution:
  "(productKey pr = Some k \<and> k \<noteq> [] \<longrightarrow>
      resolvedKey (fst (PillarProvider pr w)) = Some k \<and>
      console (snd (PillarProvider pr w)) = console w) \<and>
   (productKey pr = None \<and> helpCenter pr = Some a \<and> a \<noteq> [] \<longrightarrow>
      resolvedKey (fst (PillarProvider pr w)) = Some a \<and>
      console (snd (PillarProvider pr w)) = console w @ [Warn deprecation_notice])"
  by (simp add: PillarProvider_def truthy_def nullish_or_def)

lemma spread_keeps_other_keys:
  "k \<notin> fst ` set c \<Longrightarrow>
     map_of (fold (\<lambda>kv. AList.update (fst kv) (Some (snd kv))) c al) k = map_of al k"
  by (induction c arbitrary: al) (auto simp: update_conv')

lemma init_argument_key:
  "''productKey'' \<notin> fst ` set (case cfg of None \<Rightarrow> [] | Some c \<Rightarrow> c) \<Longrightarrow>
     map_of (init_argument key cfg) ''productKey'' = Some key"
  by (simp add: init_argument_def spread_keeps_other_keys)

lemma init_argument_overridden:
  "init_argument (Some ''pk_live'') (Some [(''productKey'', ''other'')]) =
     [(''productKey'', Some ''other'')]"
  by (simp add: init_argument_def)

lemma fresh_init_receives_resolved_key:
  "singleton w = None \<Longrightarrow>
     hd (calls_made w (snd (activate pr outcome w))) =
       StaticInit (init_argument (nullish_or (productKey pr) (helpCenter pr)) (config pr))"
proof -
  assume s: "singleton w = None"
  let ?p = "fst (PillarProvider pr w)" and ?w1 = "snd (PillarProvider pr w)"
  have s1: "singleton ?w1 = None" using s by (simp add: PillarProvider_singleton)
  have l: "sdk_log ?w1 = sdk_log w" "resolvedKey ?p = nullish_or (productKey pr) (helpCenter pr)"
    "given ?p = pr"
    by (simp_all add: PillarProvider_def)
  show ?thesis
  proof (cases outcome)
    case (Inl err)
    then show ?thesis
      by (simp add: activate_def split_beta onMount_failure [OF s1] l calls_made_def)
  next
    case (Inr inst)
    let ?w2 = "?w1\<lparr>sdk_log := sdk_log ?w1 @
        [StaticInit (init_argument (resolvedKey ?p) (config (given ?p)))],
        singleton := Some inst\<rparr>"
    obtain p' w' where r: "after_init inst ?p ?w2 = (p', w')" by (cases "after_init inst ?p ?w2")
    have "\<exists>calls. sdk_log w' = sdk_log ?w2 @ calls"
      using r unfolding after_init_def Let_def subscribe_and_track_def sdk_on_def sdk_subscribe_def
        registerCards_def
      by (auto split: option.splits dest!: registerCards_loop_world)
    then obtain calls where "sdk_log w' = sdk_log ?w2 @ calls" by blast
    with Inr r show ?thesis
      by (simp add: activate_def split_beta onMount_success [OF s1] l calls_made_def)
  qed
qed

text \<open>
  C6, evaluated at an empty primary identifier given together with the deprecated alias:
  both are supplied, the primary (empty) identifier is what the initializer receives, and
  yet the deprecation notice is logged. With the empty string as the only identifier,
  given as the alias, the alias is what the initializer would receive and no notice is
  logged.
\<close>

theorem empty_primary_key_still_warns:
  "productKey empty_key_props = Some '''' \<and>
   helpCenter empty_key_props = Some ''legacy-help'' \<and>
   resolvedKey (fst (PillarProvider empty_key_props quiet_world)) = Some '''' \<and>
   console (snd (PillarProvider empty_key_props quiet_world)) = [Warn deprecation_notice] \<and>
   sdk_log (snd (activate empty_key_props (Inl (JsError ''rejected'')) quiet_world)) =
     [StaticInit [(''productKey'', Some '''')]] \<and>
   helpCenter empty_alias_props = Some '''' \<and>
   productKey empty_alias_props = None \<and>
   resolvedKey (fst (PillarProvider empty_alias_props quiet_world)) = Some '''' \<and>
   console (snd (PillarProvider empty_alias_props quiet_world)) = []"
  by (simp add: empty_key_props_def empty_alias_props_def mount_defs sample_defs)


section \<open>The typed task registration\<close>

text \<open>
  C7. The typed \<open>onTask\<close> of the primary hook, for every task name and handler: while the
  instance store holds an instance, the name and the handler go unchanged to the
  instance's task-registration method and what that method returns is returned; while
  the store holds \<^verbatim>\<open>null\<close> the no-op unsubscribe function is returned and nothing is
  recorded anywhere, so the registration is neither refused nor queued.
\<close>

theorem typed_onTask_forwards:
  "(pillarStore p = None \<longrightarrow> usePillar_onTask taskName h p w = (Noop, p, w)) \<and>
   (pillarStore p = Some i \<longrightarrow>
      usePillar_onTask taskName h p w =
        (fst (sdk_onTask i taskName h w), p, snd (sdk_onTask i taskName h w)) \<and>
      calls_made w (snd (sdk_onTask i taskName h w)) = [Call i (MOnTask taskName h)])"
  by (simp add: usePillar_onTask_def calls_made_def sdk_onTask_def sdk_subscribe_def)

theorem typed_onTask_forwards_witness:
  "pillarStore new_provider = None \<and>
   usePillar_onTask ''add_new_source'' 5 new_provider quiet_world = (Noop, new_provider, quiet_world) \<and>
   pillarStore attached_provider = Some 7 \<and>
   fst (usePillar_onTask ''add_new_source'' 5 attached_provider quiet_world) = SdkUnsubscribe 0 \<and>
   calls_made quiet_world (snd (sdk_onTask 7 ''add_new_source'' 5 quiet_world)) =
     [Call 7 (MOnTask ''add_new_source'' 5)]"
  using typed_onTask_forwards [of new_provider "''add_new_source''" 5 quiet_world 7]
    typed_onTask_forwards [of attached_provider "''add_new_source''" 5 quiet_world 7]
    new_provider_detached attached_provider_instance
  by (simp add: sdk_onTask_def sdk_subscribe_def quiet_world_def)


section \<open>The panel hook's search convenience\<close>

text \<open>
  C8, as stated, at the empty query: \<open>openSearch\<close> called with the empty string does not
  delegate to \<open>search\<close>; the guard \<^verbatim>\<open>if (query)\<close> sends it to the search view.
\<close>

theorem openSearch_empty_query_counterexample:
  "openSearch (Some '''') attached_provider quiet_world \<noteq> search '''' attached_provider quiet_world"
  by (simp add: openSearch_def truthy_def op_defs sdk_control_def attached_provider_def quiet_world_def)

text \<open>
  C8, amended. For every non-empty query string \<open>openSearch\<close> delegates to the context's
  \<open>search\<close> with that query; called with no argument, or with the empty string, it opens
  the panel directly to the search view without a query.
\<close>

theorem openSearch_by_query:
  "(query \<noteq> [] \<longrightarrow> openSearch (Some query) p w = search query p w) \<and>
   openSearch None p w =
     open (Some \<lparr>view = Some ''search'', article = None, search_opt = None, focusInput = None\<rparr>) p w \<and>
   openSearch (Some []) p w =
     open (Some \<lparr>view = Some ''search'', article = None, search_opt = None, focusInput = None\<rparr>) p w"
  by (simp add: openSearch_def truthy_def)

theorem openSearch_by_query_witness:
  "''x'' \<noteq> [] \<and>
   openSearch (Some ''x'') attached_provider quiet_world = search ''x'' attached_provider quiet_world \<and>
   calls_made quiet_world (snd (snd (openSearch (Some ''x'') attached_provider quiet_world))) =
     [Call 7 (MOpen (Some \<lparr>view = None, article = None, search_opt = Some ''x'', focusInput = None\<rparr>))]"
  using openSearch_by_query [of "''x''" attached_provider quiet_world]
  by (simp add: op_defs sdk_control_def attached_provider_def quiet_world_def calls_made_def)


section \<open>Hooks outside a provider\<close>

text \<open>
  C9. When no provider context is found under the context key, \<open>usePillar\<close> and
  \<open>useHelpPanel\<close> both throw their configuration error; neither returns a result.
\<close>

theorem hooks_throw_outside_provider:
  "ancestors PILLAR_CONTEXT_KEY = None \<Longrightarrow>
     usePillar ancestors = Thrown (JsError ''usePillar must be used within a PillarProvider'') \<and>
     useHelpPanel ancestors = Thrown (JsError ''useHelpPanel must be used within a PillarProvider'')"
  by (simp add: usePillar_def useHelpPanel_def getContext_def)

theorem hooks_throw_outside_provider_witness:
  "(Map.empty :: context_key \<rightharpoonup> provider) PILLAR_CONTEXT_KEY = None \<and>
   usePillar (Map.empty :: context_key \<rightharpoonup> provider) =
     Thrown (JsError ''usePillar must be used within a PillarProvider'') \<and>
   useHelpPanel (Map.empty :: context_key \<rightharpoonup> provider) =
     Thrown (JsError ''useHelpPanel must be used within a PillarProvider'')"
  using hooks_throw_outside_provider [of "Map.empty :: context_key \<rightharpoonup> provider"] by simp


section \<open>Who writes the stores\<close>

lemma sdk_subscribe_bound:
  "listeners_bound w \<Longrightarrow> listener_bound r \<Longrightarrow> listeners_bound (snd (sdk_subscribe i m r w))"
  by (simp add: listeners_bound_def sdk_subscribe_def)

lemma subscribe_and_track_bound:
  "listeners_bound (snd pw) \<Longrightarrow> listener_bound (Listener ev h) \<Longrightarrow>
     listeners_bound (snd (subscribe_and_track i ev h pw))"
  by (simp add: subscribe_and_track_def sdk_on_def split_beta sdk_subscribe_bound)

lemma registerCards_bound:
  "listeners_bound w \<Longrightarrow> listeners_bound (snd (registerCards i p w))"
proof (cases "cards (given p)")
  case None
  assume "listeners_bound w"
  with None show ?thesis by (simp add: registerCards_def)
next
  case (Some cs)
  assume b: "listeners_bound w"
  obtain p' w' where r: "registerCards_loop i cs p w = (p', w')"
    by (cases "registerCards_loop i cs p w")
  from registerCards_loop_world [OF r] b have "listeners_bound w'"
    by (auto simp: listeners_bound_def)
  with Some r show ?thesis by (simp add: registerCards_def)
qed

lemma world_update_bound:
  "listeners_bound (w\<lparr>sdk_log := a\<rparr>) = listeners_bound w"
  "listeners_bound (w\<lparr>singleton := b\<rparr>) = listeners_bound w"
  "listeners_bound (w\<lparr>console := c\<rparr>) = listeners_bound w"
  "listeners_bound (w\<lparr>mounted := d\<rparr>) = listeners_bound w"
  "listeners_bound (w\<lparr>fresh := e\<rparr>) = listeners_bound w"
  by (simp_all add: listeners_bound_def)

lemma reuse_existing_bound:
  "listeners_bound w \<Longrightarrow> listeners_bound (snd (reuse_existing e p w))"
  unfolding reuse_existing_def Let_def
  by (intro registerCards_bound subscribe_and_track_bound) simp_all

lemma after_init_bound:
  "listeners_bound w \<Longrightarrow> listeners_bound (snd (after_init e p w))"
  unfolding after_init_def Let_def
  by (cases "onTask (given p)") (simp_all add: registerCards_bound subscribe_and_track_bound)

lemma onMount_bound:
  "listeners_bound w \<Longrightarrow> listeners_bound (snd (snd (onMount outcome p w)))"
proof (cases "singleton w")
  case (Some e)
  assume "listeners_bound w"
  with Some show ?thesis by (simp add: onMount_reuse reuse_existing_bound)
next
  case None
  assume b: "listeners_bound w"
  show ?thesis
  proof (cases outcome)
    case (Inl err)
    with None b show ?thesis by (simp add: onMount_failure world_update_bound)
  next
    case (Inr inst)
    with None b show ?thesis by (simp add: onMount_success after_init_bound world_update_bound)
  qed
qed

lemma run_thunk_bound:
  "listeners_bound w \<Longrightarrow> listeners_bound (snd (run_thunk t p w))"
  by (cases t) (auto simp: listeners_bound_def sdk_unsubscribe_def unmount_def split: option.splits)

lemma run_all_bound:
  "listeners_bound w \<Longrightarrow> listeners_bound (snd (run_all ts p w))"
proof (induction ts arbitrary: p w)
  case Nil
  then show ?case by simp
next
  case (Cons t ts)
  from Cons.prems have "listeners_bound (snd (run_thunk t p w))" by (rule run_thunk_bound)
  from Cons.IH [OF this, of "fst (run_thunk t p w)"] show ?case by (simp add: split_beta)
qed

lemma fold_unmount_registrations: "registrations (fold unmount hs w) = registrations w"
  by (induction hs arbitrary: w) (simp_all add: unmount_def)

lemma onDestroy_bound:
  "listeners_bound w \<Longrightarrow> listeners_bound (snd (onDestroy p w))"
  using run_all_bound [of w "cleanupFunctions p" p]
  by (simp add: onDestroy_def Let_def split_beta listeners_bound_def fold_unmount_registrations)

lemma optional_call_bound:
  "listeners_bound w \<Longrightarrow> listeners_bound (snd (snd (optional_call m p w)))"
  by (simp add: optional_call_def sdk_control_def world_update_bound split: option.splits)

lemma step_bound:
  "listeners_bound w \<Longrightarrow> listeners_bound (snd (step a (p, w)))"
proof (cases a)
  case (On ev callback)
  assume "listeners_bound w"
  then show ?thesis
    by (simp add: On on_def sdk_on_def split_beta sdk_subscribe_bound split: option.splits)
next
  case (OnTask n h)
  assume "listeners_bound w"
  then show ?thesis
    by (simp add: OnTask usePillar_onTask_def sdk_onTask_def split_beta sdk_subscribe_bound
        split: option.splits)
next
  case (OpenSearch q)
  assume "listeners_bound w"
  then show ?thesis
    by (simp add: OpenSearch openSearch_def open_def search_def optional_call_bound)
next
  case (Mount outcome)
  assume "listeners_bound w"
  then show ?thesis by (simp add: Mount onMount_bound)
next
  case Destroy
  assume "listeners_bound w"
  then show ?thesis by (simp add: Destroy onDestroy_bound)
next
  case (RenderCard c e d cb)
  assume "listeners_bound w"
  then show ?thesis by (simp add: RenderCard card_renderer_mounts world_update_bound)
next
  case (RunThunk t)
  assume "listeners_bound w"
  then show ?thesis by (simp add: RunThunk run_thunk_bound)
qed (simp_all add: open_def close_def toggle_def openArticle_def openCategory_def search_def
      navigate_def setTheme_def setTextSelectionEnabled_def openChat_def optional_call_bound)

lemma bound_listener_event:
  assumes "listeners_bound w" and "(k, Listener ev h) \<in> set (registrations w)"
  shows "(h = SetIsPanelOpen b \<longrightarrow> ev = (if b then PanelOpen else PanelClose)) \<and>
         (h = SetState s \<longrightarrow> ev = ReadyEvent \<and> s = Ready \<or> ev = ErrorEvent \<and> s = Error)"
  using assms by (force simp: listeners_bound_def)

lemma store_writers:
  "(passthrough a \<longrightarrow>
      pillarStore (fst (step a (p, w))) = pillarStore p \<and>
      stateStore (fst (step a (p, w))) = stateStore p \<and>
      isPanelOpenStore (fst (step a (p, w))) = isPanelOpenStore p) \<and>
   (isPanelOpenStore (fst (step a (p, w))) \<noteq> isPanelOpenStore p \<longrightarrow>
      (\<exists>b. a = Listen (SetIsPanelOpen b))) \<and>
   (pillarStore (fst (step a (p, w))) \<noteq> pillarStore p \<longrightarrow> (\<exists>outcome. a = Mount outcome)) \<and>
   (stateStore (fst (step a (p, w))) \<noteq> stateStore p \<longrightarrow>
      (\<exists>outcome. a = Mount outcome) \<or> (\<exists>s. a = Listen (SetState s)))"
proof (cases "passthrough a")
  case True
  then have "fst (step a (p, w)) = p" by (rule passthrough_provider)
  then show ?thesis by simp
next
  case False
  then consider
      (task) n h where "a = OnTask n h"
    | (osearch) q where "a = OpenSearch q"
    | (chat) "a = OpenChat"
    | (mount) outcome where "a = Mount outcome"
    | (destroy) "a = Destroy"
    | (listen) h where "a = Listen h"
    | (render) c e d cb where "a = RenderCard c e d cb"
    | (thunk) t where "a = RunThunk t"
    by (cases a) auto
  then show ?thesis
  proof cases
    case task
    then show ?thesis by (simp add: usePillar_onTask_provider)
  next
    case osearch
    then show ?thesis by (simp add: openSearch_provider)
  next
    case chat
    then show ?thesis by (simp add: openChat_def navigate_def optional_call_provider)
  next
    case mount
    then show ?thesis by (simp add: onMount_panel)
  next
    case destroy
    then show ?thesis by (simp add: onDestroy_stores)
  next
    case (listen h)
    then show ?thesis by (cases h) simp_all
  next
    case render
    then show ?thesis by (simp add: card_renderer_stores)
  next
    case (thunk t)
    obtain p' w' where "run_thunk t p w = (p', w')" by (cases "run_thunk t p w")
    with thunk run_thunk_stores [OF this] show ?thesis by simp
  qed
qed

text \<open>
  C10. No pass-through operation writes the instance store, the state store or the
  panel-open store. Over all entry points of the adapter: the panel-open store changes
  only when one of the panel listeners runs, the instance store only in \<open>onMount\<close>, the
  state store only in \<open>onMount\<close> or when one of the state listeners runs; and at every
  step the listeners over the panel-open store stay subscribed to \<^verbatim>\<open>panel:open\<close> and
  \<^verbatim>\<open>panel:close\<close> only, those over the state store to \<^verbatim>\<open>ready\<close> and \<^verbatim>\<open>error\<close> only.
\<close>

theorem stores_written_only_by_lifecycle_and_listeners:
  "(passthrough a \<longrightarrow>
      pillarStore (fst (step a (p, w))) = pillarStore p \<and>
      stateStore (fst (step a (p, w))) = stateStore p \<and>
      isPanelOpenStore (fst (step a (p, w))) = isPanelOpenStore p) \<and>
   (isPanelOpenStore (fst (step a (p, w))) \<noteq> isPanelOpenStore p \<longrightarrow>
      (\<exists>b. a = Listen (SetIsPanelOpen b))) \<and>
   (pillarStore (fst (step a (p, w))) \<noteq> pillarStore p \<longrightarrow> (\<exists>outcome. a = Mount outcome)) \<and>
   (stateStore (fst (step a (p, w))) \<noteq> stateStore p \<longrightarrow>
      (\<exists>outcome. a = Mount outcome) \<or> (\<exists>s. a = Listen (SetState s))) \<and>
   (listeners_bound w \<longrightarrow> listeners_bound (snd (step a (p, w))))"
  using store_writers [of a p w] step_bound [of w a p] by blast

theorem stores_written_only_by_lifecycle_and_listeners_witness:
  "passthrough (Open None) \<and>
   isPanelOpenStore (fst (step (Open None) (attached_provider, quiet_world))) =
     isPanelOpenStore attached_provider \<and>
   isPanelOpenStore (fst (step (Listen (SetIsPanelOpen True)) (attached_provider, quiet_world))) \<noteq>
     isPanelOpenStore attached_provider \<and>
   pillarStore (fst (step (Mount (Inr sample_instance)) (new_provider, quiet_world))) \<noteq>
     pillarStore new_provider \<and>
   stateStore (fst (step (Listen (SetState Ready)) (attached_provider, quiet_world))) \<noteq>
     stateStore attached_provider \<and>
   listeners_bound quiet_world \<and>
   listeners_bound (snd (step (Mount (Inr sample_instance)) (new_provider, quiet_world))) \<and>
   (2, Listener ReadyEvent (SetState Ready))
     \<in> set (registrations (snd (step (Mount (Inr sample_instance)) (new_provider, quiet_world))))"
proof -
  have a: "passthrough (Open None)" by simp
  have b: "isPanelOpenStore (fst (step (Listen (SetIsPanelOpen True)) (attached_provider, quiet_world))) \<noteq>
     isPanelOpenStore attached_provider"
    by (simp add: sample_defs)
  have c: "stateStore (fst (step (Listen (SetState Ready)) (attached_provider, quiet_world))) \<noteq>
     stateStore attached_provider"
    by (simp add: sample_defs)
  have m: "step (Mount (Inr sample_instance)) (new_provider, quiet_world) = first_activation"
    by (simp add: first_activation_def activate_def new_provider_def PillarProvider_def
        truthy_def sample_props_def)
  have d: "pillarStore (fst (step (Mount (Inr sample_instance)) (new_provider, quiet_world))) \<noteq>
     pillarStore new_provider"
    unfolding m by (simp add: first_activation_value new_provider_detached)
  have e: "listeners_bound quiet_world"
    by (simp add: listeners_bound_def quiet_world_def)
  have f: "(2, Listener ReadyEvent (SetState Ready))
     \<in> set (registrations (snd (step (Mount (Inr sample_instance)) (new_provider, quiet_world))))"
    unfolding m by (simp add: first_activation_value)
  from a b c d e f
    stores_written_only_by_lifecycle_and_listeners [of "Open None" attached_provider quiet_world]
    stores_written_only_by_lifecycle_and_listeners
      [of "Mount (Inr sample_instance)" new_provider quiet_world]
  show ?thesis by blast
qed


end
